theory Spec2Isabelle
  imports Complex_Main "HOL-Library.Sublist"
begin

section \<open>Values that cross the estimator's interface\<close>

text \<open>
  The estimator of \<^verbatim>\<open>regressor.py\<close> receives tabular data, callables and
  a prior table, and hands them to a search engine (\<^verbatim>\<open>Parallel\<close>,
  \<^verbatim>\<open>Tree\<close>, \<^verbatim>\<open>utils.run\<close>, \<^verbatim>\<open>get_priors\<close>) that
  lives outside the file. Python exceptions are values of \<open>error\<close>; the
  constructor says which statement of the source raises it.
\<close>

datatype error =
    ValidationError   \<comment> \<open>\<^verbatim>\<open>ValueError\<close> raised by \<^verbatim>\<open>check_array\<close> / \<^verbatim>\<open>check_X_y\<close>\<close>
  | ShapeError        \<comment> \<open>\<^verbatim>\<open>ValueError\<close> raised by \<^verbatim>\<open>pd.DataFrame(X, columns=...)\<close>\<close>
  | NotFittedError    \<comment> \<open>raised by \<^verbatim>\<open>check_is_fitted\<close>\<close>
  | AttributeError    \<comment> \<open>an attribute the object does not have\<close>
  | IndexError        \<comment> \<open>an index out of range\<close>
  | KeyError          \<comment> \<open>a key the dictionary does not have\<close>
  | SignatureError    \<comment> \<open>\<^verbatim>\<open>ValueError\<close> raised by \<^verbatim>\<open>inspect.signature\<close>\<close>
  | EngineFailure     \<comment> \<open>anything raised inside the search engine\<close>

text \<open>
  An entry of an input array: a number, or something that has no reading as a
  number.
\<close>

datatype cell = Num (the_Num: real) | Text string

text \<open>
  What a caller may pass as \<^verbatim>\<open>X\<close>: a labelled frame (it has
  \<^verbatim>\<open>.columns\<close>), a two-dimensional array with its column count
  (\<^verbatim>\<open>X.shape[1]\<close>), a one-dimensional array, or a plain nested list, which
  has neither \<^verbatim>\<open>.columns\<close> nor \<^verbatim>\<open>.shape\<close>.
\<close>

datatype features =
    DataFrame "string list" "cell list list"
  | Array2 nat "cell list list"
  | Array1 "cell list"
  | PyList "cell list list"

text \<open>A frame after validation: column labels over a numeric matrix, row by row.\<close>

datatype frame = Frame (columns: "string list") (rows_of: "real list list")

text \<open>
  A callable has a name (\<^verbatim>\<open>op.__name__\<close>), a parameter count
  (\<^verbatim>\<open>len(signature(op).parameters)\<close>) and an identity that tells two
  functions of the same name apart. The count is \<open>None\<close> for a callable on
  which \<^verbatim>\<open>signature\<close> raises, as it does on built-in functions such as
  \<^verbatim>\<open>max\<close>.
\<close>

datatype callable = Callable (fn_name: string) (fn_arity: "nat option") (fn_id: nat)

text \<open>
  The \<^verbatim>\<open>root\<close> argument of \<^verbatim>\<open>fit\<close> is untyped in the source: a
  function object or a string.
\<close>

datatype pyobj = Fn callable | Str string

text \<open>\<^verbatim>\<open>loss_\<close> starts as \<^verbatim>\<open>np.inf\<close>.\<close>

datatype loss = Infinite | Finite real

text \<open>
  A model (\<^verbatim>\<open>Tree\<close>) is opaque to the estimator, which only reads its
  rendering, its parameter names, the fitted values
  \<^verbatim>\<open>par_values[dataset][name]\<close>, and calls \<^verbatim>\<open>predict\<close> and
  \<^verbatim>\<open>latex\<close>. \<open>None\<close> from \<open>tree_predict\<close> stands for an exception.
\<close>

record tree =
  tree_repr :: string
  tree_latex :: string
  parameters :: "string list"
  par_values :: "string \<rightharpoonup> (string \<rightharpoonup> real)"
  tree_predict :: "frame \<Rightarrow> real list option"

subsection \<open>Decimal numerals and string replacement\<close>

text \<open>\<^verbatim>\<open>"%d" % i\<close> for a natural number.\<close>

definition digit_char :: "nat \<Rightarrow> char" where
  "digit_char d = ''0123456789'' ! d"

fun string_of_nat :: "nat \<Rightarrow> string" where
  "string_of_nat n =
     (if n < 10 then [digit_char n] else string_of_nat (n div 10) @ [digit_char (n mod 10)])"

declare string_of_nat.simps [simp del]

text \<open>\<^verbatim>\<open>["X%d" % i for i in range(n)]\<close> and \<^verbatim>\<open>["a%d" % i for i in range(n)]\<close>.\<close>

definition numbered :: "string \<Rightarrow> nat \<Rightarrow> string list" where
  "numbered stem n = map (\<lambda>i. stem @ string_of_nat i) [0..<n]"

text \<open>
  \<^verbatim>\<open>s.replace(old, new)\<close>: every occurrence of \<open>old\<close>, found from left to
  right without overlap, becomes \<open>new\<close>; an empty \<open>old\<close> matches before every
  character and at the end.
\<close>

function replace :: "string \<Rightarrow> string \<Rightarrow> string \<Rightarrow> string" where
  "replace s old new =
     (if old = [] then new @ concat (map (\<lambda>c. c # new) s)
      else if s = [] then []
      else if prefix old s then new @ replace (drop (length old) s) old new
      else hd s # replace (tl s) old new)"
  by pat_completeness auto
termination
  by (relation "measure (\<lambda>(s, old, new). length s)") auto

declare replace.simps [simp del]

section \<open>The external collaborators\<close>

text \<open>
  What \<^verbatim>\<open>Parallel(...)\<close> receives in \<^verbatim>\<open>fit\<close> (lines 123-134), one field
  per keyword argument. The tables are the contents of the dictionaries at the
  moment of the call.
\<close>

record session_args =
  s_Ts :: "real list"
  s_variables :: "string list"
  s_parameters :: "string list"
  s_x :: frame
  s_y :: "cell list"
  s_prior_par :: "string \<rightharpoonup> real"
  s_ops :: "string \<rightharpoonup> nat"
  s_custom_ops :: "string \<rightharpoonup> callable"
  s_root :: "pyobj option"
  s_random_state :: "nat option"

text \<open>
  The functions \<^verbatim>\<open>regressor.py\<close> imports and calls but does not define are
  parameters of the model; \<open>'s\<close> is the engine's session (a \<^verbatim>\<open>Parallel\<close>
  object). A constructor or a run that raises returns \<open>None\<close>.
  \<^item> \<open>get_priors\<close>: the two tables \<^verbatim>\<open>get_priors()\<close> returns, built anew on each call;
  \<^item> \<open>new_Tree\<close>: \<^verbatim>\<open>Tree()\<close>; \<open>new_Parallel ts\<close>: \<^verbatim>\<open>Parallel(Ts=ts)\<close>;
  \<^item> \<open>Parallel\<close>: the constructor with all its arguments;
  \<^item> \<open>run\<close>: \<^verbatim>\<open>utils.run(pms, epochs)\<close>, which advances the session it is given and
    returns the best model, its loss and the loss trajectory;
  \<^item> \<open>trees\<close>: \<^verbatim>\<open>list(pms.trees.values())\<close>;
  \<^item> \<open>present\<close>: \<^verbatim>\<open>utils.present_results\<close>, \<open>False\<close> when it raises;
  \<^item> \<open>round_str v d\<close>: \<^verbatim>\<open>str(np.round(v, decimals=d))\<close>.
\<close>

record 's engine =
  get_priors :: "(string \<rightharpoonup> real) \<times> (string \<rightharpoonup> nat)"
  new_Tree :: tree
  new_Parallel :: "real list \<Rightarrow> 's"
  Parallel :: "session_args \<Rightarrow> 's option"
  run :: "'s \<Rightarrow> int \<Rightarrow> 's \<times> (tree \<times> loss \<times> real list) option"
  trees :: "'s \<Rightarrow> tree list"
  present :: "tree \<Rightarrow> loss \<Rightarrow> real list \<Rightarrow> bool"
  round_str :: "real \<Rightarrow> int \<Rightarrow> string"

subsection \<open>Validation (scikit-learn) and labelling (pandas)\<close>

text \<open>
  \<^verbatim>\<open>check_array(X)\<close> with its default arguments returns the input as a
  two-dimensional numeric array and raises \<^verbatim>\<open>ValueError\<close> otherwise: on a
  one-dimensional input, on rows of different lengths, on an entry that is
  not a number, on no row or no column.
\<close>

definition numeric :: "nat \<Rightarrow> cell list list \<Rightarrow> error + real list list" where
  "numeric n rows =
     (if rows \<noteq> [] \<and> 0 < n \<and> list_all (\<lambda>r. length r = n \<and> list_all is_Num r) rows
      then Inr (map (map the_Num) rows)
      else Inl ValidationError)"

fun check_array :: "features \<Rightarrow> error + real list list" where
  "check_array (DataFrame cols rows) = numeric (length cols) rows"
| "check_array (Array2 n rows) = numeric n rows"
| "check_array (Array1 xs) = Inl ValidationError"
| "check_array (PyList rows) =
     (case rows of [] \<Rightarrow> Inl ValidationError | r # _ \<Rightarrow> numeric (length r) rows)"

text \<open>
  \<^verbatim>\<open>check_X_y(X, y)\<close> validates \<^verbatim>\<open>X\<close> as \<^verbatim>\<open>check_array\<close> does and
  raises \<^verbatim>\<open>ValueError\<close> when \<^verbatim>\<open>y\<close> has another number of rows. With the
  default \<^verbatim>\<open>y_numeric=False\<close> the entries of \<^verbatim>\<open>y\<close> are not converted.
\<close>

definition check_X_y :: "features \<Rightarrow> cell list \<Rightarrow> error + (real list list \<times> cell list)" where
  "check_X_y X y =
     (case check_array X of
        Inl e \<Rightarrow> Inl e
      | Inr A \<Rightarrow> if length y = length A then Inr (A, y) else Inl ValidationError)"

text \<open>
  \<^verbatim>\<open>pd.DataFrame(A, columns=names)\<close> on an array raises \<^verbatim>\<open>ValueError\<close>
  when the number of labels is not the number of columns.
\<close>

definition pd_DataFrame :: "real list list \<Rightarrow> string list \<Rightarrow> error + frame" where
  "pd_DataFrame A names =
     (if list_all (\<lambda>r. length r = length names) A then Inr (Frame names A)
      else Inl ShapeError)"

text \<open>The shape of an input, for stating properties: rows and feature columns.\<close>

fun n_rows :: "features \<Rightarrow> nat" where
  "n_rows (DataFrame cols rows) = length rows"
| "n_rows (Array2 n rows) = length rows"
| "n_rows (Array1 xs) = length xs"
| "n_rows (PyList rows) = length rows"

fun n_features :: "features \<Rightarrow> nat" where
  "n_features (DataFrame cols rows) = length cols"
| "n_features (Array2 n rows) = n"
| "n_features (Array1 xs) = 0"
| "n_features (PyList rows) = (case rows of [] \<Rightarrow> 0 | r # _ \<Rightarrow> length r)"

section \<open>The estimator\<close>

text \<open>
  The prior table is a dictionary the estimator holds by reference:
  \<^verbatim>\<open>self.prior_par = prior_par\<close> stores the argument itself, and the default
  argument is the module-level \<^verbatim>\<open>PRIORS\<close>. The store maps the address of a
  dictionary to its contents.
\<close>

type_synonym addr = nat
type_synonym store = "addr \<Rightarrow> (string \<rightharpoonup> real)"

definition PRIORS :: addr where
  "PRIORS = 0"

text \<open>
  The attributes \<^verbatim>\<open>__init__\<close> assigns (lines 67-80). \<open>prior_par\<close> is the
  address of the prior table; \<open>ops\<close> and \<open>custom_ops\<close> are dictionaries made
  in the constructor, one per instance. A name that ends in an underscore in
  the source ends in \<open>_'\<close> here.
\<close>

record 's estimator =
  ts :: "real list"
  prior_par :: addr
  epochs :: int
  pms :: 's
  ops :: "string \<rightharpoonup> nat"
  custom_ops :: "string \<rightharpoonup> callable"
  X_' :: "frame option"
  y_' :: "cell list option"
  model_' :: tree
  temp_' :: real
  models_' :: "tree list"
  loss_' :: loss
  cache_' :: "real list"
  variables :: "string list"

section \<open>Construction and the primitive registry\<close>

text \<open>Importing the module runs \<^verbatim>\<open>PRIORS, _ = get_priors()\<close> (line 18).\<close>

definition module_store :: "'s engine \<Rightarrow> store" where
  "module_store env = (\<lambda>a. Map.empty)(PRIORS := fst (get_priors env))"

text \<open>\<^verbatim>\<open>TEMPERATURES = [1.0] + [1.04**k for k in range(1, 20)]\<close> (line 21).\<close>

definition TEMPERATURES :: "real list" where
  "TEMPERATURES = 1 # map (\<lambda>k. (104 / 100) ^ k) [1..<20]"

text \<open>\<^verbatim>\<open>__init__(self, prior_par=PRIORS, ts=TEMPERATURES, epochs=1500)\<close>.\<close>

definition init :: "'s engine \<Rightarrow> addr \<Rightarrow> real list \<Rightarrow> int \<Rightarrow> 's estimator" where
  "init env prior_par' ts' epochs' =
     \<lparr>ts = ts', prior_par = prior_par', epochs = epochs', pms = new_Parallel env ts',
      ops = snd (get_priors env), custom_ops = Map.empty, X_' = None, y_' = None,
      model_' = new_Tree env, temp_' = 0, models_' = [new_Tree env], loss_' = Infinite,
      cache_' = [], variables = []\<rparr>"

definition BMSRegressor :: "'s engine \<Rightarrow> 's estimator" where
  "BMSRegressor env = init env PRIORS TEMPERATURES 1500"

text \<open>
  \<^verbatim>\<open>add_primitive\<close> (lines 208-211): three dictionary updates in the order
  of the source, the third on the dictionary \<open>prior_par\<close> refers to. Line 209
  has entered the callable in \<^verbatim>\<open>custom_ops\<close> when line 210 calls
  \<^verbatim>\<open>signature(op)\<close>; if that raises, the other two updates do not happen.
  The result is the exception raised, if any, with the estimator and the store
  as the call leaves them.
\<close>

definition add_primitive ::
  "'s estimator \<Rightarrow> callable \<Rightarrow> store \<Rightarrow> error option \<times> 's estimator \<times> store" where
  "add_primitive self op st =
     (case fn_arity op of
        None \<Rightarrow>
          (Some SignatureError,
           self\<lparr>custom_ops := (custom_ops self)(fn_name op \<mapsto> op)\<rparr>, st)
      | Some n \<Rightarrow>
          (None,
           self\<lparr>custom_ops := (custom_ops self)(fn_name op \<mapsto> op),
                 ops := (ops self)(fn_name op \<mapsto> n)\<rparr>,
           st(prior_par self := (st (prior_par self))(''Nopi_'' @ fn_name op \<mapsto> 1))))"

text \<open>
  \<^verbatim>\<open>for op in custom_ops: self.add_primitive(op)\<close> (lines 119-120); the loop
  ends at the first registration that raises.
\<close>

fun add_primitives ::
  "'s estimator \<Rightarrow> callable list \<Rightarrow> store \<Rightarrow> error option \<times> 's estimator \<times> store" where
  "add_primitives self [] st = (None, self, st)"
| "add_primitives self (op # rest) st =
     (case add_primitive self op st of
        (Some e, self', st') \<Rightarrow> (Some e, self', st')
      | (None, self', st') \<Rightarrow> add_primitives self' rest st')"

section \<open>Fitting\<close>

text \<open>
  Lines 106-110 of \<^verbatim>\<open>fit\<close>: the labels of a frame, or \<^verbatim>\<open>X0, X1, ...\<close>
  from \<^verbatim>\<open>X.shape[1]\<close>. A one-dimensional array has no \<^verbatim>\<open>shape[1]\<close>, a
  nested list no \<^verbatim>\<open>shape\<close>.
\<close>

fun column_names :: "features \<Rightarrow> error + string list" where
  "column_names (DataFrame cols rows) = Inr cols"
| "column_names (Array2 n rows) = Inr (numbered ''X'' n)"
| "column_names (Array1 xs) = Inl IndexError"
| "column_names (PyList rows) = Inl AttributeError"

text \<open>
  Lines 121-122. The keys of \<^verbatim>\<open>self.ops\<close> are strings, so a function object
  is never among them: the test \<^verbatim>\<open>root not in self.ops.keys()\<close> holds for
  every function. A string that is not a key reaches \<^verbatim>\<open>op.__name__\<close> in
  \<^verbatim>\<open>add_primitive\<close>, which a string does not have.
\<close>

definition register_root ::
  "'s estimator \<Rightarrow> pyobj option \<Rightarrow> store \<Rightarrow> error option \<times> 's estimator \<times> store" where
  "register_root self root' st =
     (case root' of
        None \<Rightarrow> (None, self, st)
      | Some (Fn f) \<Rightarrow> add_primitive self f st
      | Some (Str name) \<Rightarrow>
          if ops self name \<noteq> None then (None, self, st) else (Some AttributeError, self, st))"

text \<open>Lines 118-122: the registrations that precede the session.\<close>

definition fit_register ::
  "'s estimator \<Rightarrow> pyobj option \<Rightarrow> callable list option \<Rightarrow> store
     \<Rightarrow> error option \<times> 's estimator \<times> store" where
  "fit_register self root' custom_ops' st =
     (case (case custom_ops' of
              None \<Rightarrow> (None, self, st)
            | Some fs \<Rightarrow> add_primitives self fs st) of
        (Some e, self2, st2) \<Rightarrow> (Some e, self2, st2)
      | (None, self2, st2) \<Rightarrow> register_root self2 root' st2)"

text \<open>The arguments of \<^verbatim>\<open>Parallel(...)\<close>, lines 123-134.\<close>

definition fit_session_args ::
  "'s estimator \<Rightarrow> store \<Rightarrow> frame \<Rightarrow> cell list \<Rightarrow> nat \<Rightarrow> pyobj option \<Rightarrow> nat option
     \<Rightarrow> session_args" where
  "fit_session_args self st Xf yv num_param root' random_state =
     \<lparr>s_Ts = ts self, s_variables = variables self,
      s_parameters = numbered ''a'' num_param, s_x = Xf, s_y = yv,
      s_prior_par = st (prior_par self), s_ops = ops self,
      s_custom_ops = custom_ops self, s_root = root', s_random_state = random_state\<rparr>"

text \<open>
  Lines 123-139: build the session, run it, store the results. The session is
  assigned to \<^verbatim>\<open>self.pms\<close> before the run; the fitted attributes are
  assigned after it.
\<close>

definition fit_search ::
  "'s engine \<Rightarrow> 's estimator \<Rightarrow> store \<Rightarrow> frame \<Rightarrow> cell list \<Rightarrow> nat \<Rightarrow> pyobj option
     \<Rightarrow> nat option \<Rightarrow> error option \<times> 's estimator" where
  "fit_search env self st Xf yv num_param root' random_state =
     (case Parallel env (fit_session_args self st Xf yv num_param root' random_state) of
        None \<Rightarrow> (Some EngineFailure, self)
      | Some session \<Rightarrow>
          (case run env session (epochs self) of
             (session', None) \<Rightarrow> (Some EngineFailure, self\<lparr>pms := session'\<rparr>)
           | (session', Some (best, l, c)) \<Rightarrow>
               (None, self\<lparr>pms := session', model_' := best, loss_' := l, cache_' := c,
                           models_' := trees env session', X_' := Some Xf, y_' := Some yv\<rparr>)))"

text \<open>
  \<^verbatim>\<open>fit\<close> (lines 82-140). The result is the exception raised, if any, with
  the estimator and the store as the call leaves them. \<^verbatim>\<open>range(num_param)\<close>
  is empty for a negative count, which a natural number leaves out.
\<close>

definition fit ::
  "'s engine \<Rightarrow> 's estimator \<Rightarrow> features \<Rightarrow> cell list \<Rightarrow> nat \<Rightarrow> pyobj option
     \<Rightarrow> callable list option \<Rightarrow> nat option \<Rightarrow> store
     \<Rightarrow> error option \<times> 's estimator \<times> store" where
  "fit env self X y num_param root' custom_ops' random_state st =
     (case column_names X of
        Inl e \<Rightarrow> (Some e, self, st)
      | Inr names \<Rightarrow>
          (case check_X_y X y of
             Inl e \<Rightarrow> (Some e, self\<lparr>variables := names\<rparr>, st)
           | Inr (A, yv) \<Rightarrow>
               (case pd_DataFrame A names of
                  Inl e \<Rightarrow> (Some e, self\<lparr>variables := names\<rparr>, st)
                | Inr Xf \<Rightarrow>
                    (case fit_register (self\<lparr>variables := names\<rparr>) root' custom_ops' st of
                       (Some e, self3, st3) \<Rightarrow> (Some e, self3, st3)
                     | (None, self3, st3) \<Rightarrow>
                         (case fit_search env self3 st3 Xf yv num_param root' random_state of
                            (r, self4) \<Rightarrow> (r, self4, st3))))))"

section \<open>Operations on the fitted state\<close>

text \<open>
  \<^verbatim>\<open>check_is_fitted(self, attributes=[...])\<close> raises \<^verbatim>\<open>NotFittedError\<close>
  unless the estimator has every attribute named. An instance has the
  attributes \<^verbatim>\<open>__init__\<close> assigned, and no method deletes one.
\<close>

definition instance_attributes :: "string list" where
  "instance_attributes =
     [''ts'', ''prior_par'', ''epochs'', ''pms'', ''ops'', ''custom_ops'', ''X_'', ''y_'',
      ''model_'', ''temp_'', ''models_'', ''loss_'', ''cache_'', ''variables'']"

definition hasattr :: "'s estimator \<Rightarrow> string \<Rightarrow> bool" where
  "hasattr self a = (a \<in> set instance_attributes)"

definition check_is_fitted :: "'s estimator \<Rightarrow> string list \<Rightarrow> error + unit" where
  "check_is_fitted self attributes =
     (if list_all (hasattr self) attributes then Inr () else Inl NotFittedError)"

text \<open>
  \<^verbatim>\<open>predict\<close> (lines 142-165). \<^verbatim>\<open>np.expand_dims(..., axis=1)\<close> turns the
  column the model returns into rows of one entry.
\<close>

definition predict :: "'s estimator \<Rightarrow> features \<Rightarrow> error + real list list" where
  "predict self X =
     (case check_array X of
        Inl e \<Rightarrow> Inl e
      | Inr A \<Rightarrow>
          (case check_is_fitted self [''model_''] of
             Inl e \<Rightarrow> Inl e
           | Inr _ \<Rightarrow>
               (case pd_DataFrame A (variables self) of
                  Inl e \<Rightarrow> Inl e
                | Inr Xf \<Rightarrow>
                    (case tree_predict (model_' self) Xf of
                       None \<Rightarrow> Inl EngineFailure
                     | Some ys \<Rightarrow> Inr (map (\<lambda>v. [v]) ys)))))"

text \<open>\<^verbatim>\<open>present_results\<close> (lines 167-177).\<close>

definition present_results :: "'s engine \<Rightarrow> 's estimator \<Rightarrow> error + unit" where
  "present_results env self =
     (case check_is_fitted self [''model_'', ''loss_'', ''cache_''] of
        Inl e \<Rightarrow> Inl e
      | Inr _ \<Rightarrow>
          if present env (model_' self) (loss_' self) (cache_' self) then Inr ()
          else Inl EngineFailure)"

text \<open>
  \<^verbatim>\<open>repr\<close> (lines 182-189): the loop over the parameter names, each replaced
  in the string the previous replacements left.
\<close>

fun substitute ::
  "(real \<Rightarrow> int \<Rightarrow> string) \<Rightarrow> (string \<rightharpoonup> (string \<rightharpoonup> real)) \<Rightarrow> int \<Rightarrow> string \<Rightarrow> string list
     \<Rightarrow> error + string" where
  "substitute str_round values decimals model_str [] = Inr model_str"
| "substitute str_round values decimals model_str (name # names) =
     (case values ''d0'' of
        None \<Rightarrow> Inl KeyError
      | Some d0 \<Rightarrow>
          (case d0 name of
             None \<Rightarrow> Inl KeyError
           | Some v \<Rightarrow>
               substitute str_round values decimals
                 (replace model_str name (str_round v decimals)) names))"

definition repr :: "'s engine \<Rightarrow> 's estimator \<Rightarrow> int \<Rightarrow> error + string" where
  "repr env self decimals =
     substitute (round_str env) (par_values (model_' self)) decimals
       (tree_repr (model_' self)) (parameters (model_' self))"

text \<open>
  \<^verbatim>\<open>get_models\<close> (lines 191-203): \<open>idx\<close> counts the models already handled.
  The names are read from \<^verbatim>\<open>self.X_\<close>, which is \<^verbatim>\<open>None\<close> until a fit
  has stored a frame.
\<close>

fun get_models_from :: "'s engine \<Rightarrow> 's estimator \<Rightarrow> nat \<Rightarrow> tree list \<Rightarrow> error + 's estimator list" where
  "get_models_from env self idx [] = Inr []"
| "get_models_from env self idx (tree # rest) =
     (if length (ts self) \<le> idx then Inl IndexError
      else case X_' self of
        None \<Rightarrow> Inl AttributeError
      | Some Xf \<Rightarrow>
          (case get_models_from env self (Suc idx) rest of
             Inl e \<Rightarrow> Inl e
           | Inr model_list \<Rightarrow>
               Inr ((BMSRegressor env)\<lparr>model_' := tree, temp_' := ts self ! idx,
                                        variables := columns Xf\<rparr> # model_list)))"

definition get_models :: "'s engine \<Rightarrow> 's estimator \<Rightarrow> error + 's estimator list" where
  "get_models env self = get_models_from env self 0 (models_' self)"

text \<open>\<^verbatim>\<open>latex\<close> (lines 205-206).\<close>

definition latex :: "'s estimator \<Rightarrow> error + string" where
  "latex self = Inr (tree_latex (model_' self))"

section \<open>An engine to run the model on\<close>

text \<open>
  The engine is outside \<^verbatim>\<open>regressor.py\<close>. To evaluate the estimator on
  concrete inputs, the following engine stands in for it, with the interface
  the specification lists (6): its session is the record of the arguments it
  was built with, its search returns the constant model \<open>15\<close> of the class
  docstring's example, and its population has one model per temperature.
  Its tables know the operators \<^verbatim>\<open>sin\<close> and \<^verbatim>\<open>+\<close>. \<open>whole_str\<close> renders a non-negative whole number the
  way \<^verbatim>\<open>str(np.round(v, d))\<close> does.
\<close>

definition const_tree :: "real \<Rightarrow> tree" where
  "const_tree c =
     \<lparr>tree_repr = ''_a0_'', tree_latex = ''_a0_'', parameters = [''_a0_''],
      par_values = [''d0'' \<mapsto> [''_a0_'' \<mapsto> c]],
      tree_predict = (\<lambda>Xf. Some (map (\<lambda>r. c) (rows_of Xf)))\<rparr>"

definition whole_str :: "real \<Rightarrow> int \<Rightarrow> string" where
  "whole_str v decimals = string_of_nat (nat \<lfloor>v\<rfloor>) @ ''.0''"

definition const_engine :: "session_args engine" where
  "const_engine =
     \<lparr>get_priors = ([''Nopi_sin'' \<mapsto> 6, ''Nopi_+'' \<mapsto> 5], [''sin'' \<mapsto> 1, ''+'' \<mapsto> 2]),
      new_Tree = const_tree 1,
      new_Parallel = (\<lambda>ts'.
        \<lparr>s_Ts = ts', s_variables = [''x''], s_parameters = [''a''], s_x = Frame [] [],
         s_y = [], s_prior_par = Map.empty, s_ops = Map.empty, s_custom_ops = Map.empty,
         s_root = None, s_random_state = None\<rparr>),
      Parallel = Some,
      run = (\<lambda>session n. (session, Some (const_tree 15, Finite 0, []))),
      trees = (\<lambda>session. map (\<lambda>t. const_tree 15) (s_Ts session)),
      present = (\<lambda>best l c. True),
      round_str = whole_str\<rparr>"

text \<open>
  An estimator as the constructor leaves it, and the one a fit on two rows of
  one unlabelled column leaves.
\<close>

definition ex_unfit :: "session_args estimator" where
  "ex_unfit = init const_engine PRIORS [1, 2] 1500"

definition ex_fitted :: "session_args estimator" where
  "ex_fitted =
     fst (snd (fit const_engine ex_unfit (Array2 1 [[Num 0], [Num 1]]) [Num 15, Num 15] 1
       None None None (module_store const_engine)))"

text \<open>A function of the caller's named \<^verbatim>\<open>sin\<close>, a name the operator table has.\<close>

definition ex_sin :: callable where
  "ex_sin = Callable ''sin'' (Some 1) 7"

text \<open>The built-in \<^verbatim>\<open>max\<close>: it has a name, and \<^verbatim>\<open>signature\<close> raises on it.\<close>

definition ex_max :: callable where
  "ex_max = Callable ''max'' None 3"

section \<open>The specification's variable names\<close>

text \<open>
  The names as the specification words them (4.1): the column labels,
  verbatim and in their order, if the input carries labels; otherwise
  \<^verbatim>\<open>X0..X(n-1)\<close> for \<open>n\<close> feature columns.
\<close>

definition spec_variable_names :: "features \<Rightarrow> string list" where
  "spec_variable_names X =
     (case X of DataFrame cols rows \<Rightarrow> cols | _ \<Rightarrow> numbered ''X'' (n_features X))"

section \<open>Renderings as text and parameter tokens\<close>









text \<open>
  A name and a value string cannot overlap: the name's first and last
  characters are not in the value and the value is not inside the name, as for
  a name between underscores and a decimal numeral.
\<close>

definition no_overlap :: "string \<Rightarrow> string \<Rightarrow> bool" where
  "no_overlap p v = (p \<noteq> [] \<and> hd p \<notin> set v \<and> last p \<notin> set v \<and> \<not> sublist v p)"


section \<open>Errors each operation can raise\<close>

lemma check_is_fitted_model: "check_is_fitted self [''model_''] = Inr ()"
  by (simp add: check_is_fitted_def hasattr_def instance_attributes_def)

lemma check_is_fitted_results:
  "check_is_fitted self [''model_'', ''loss_'', ''cache_''] = Inr ()"
  by (simp add: check_is_fitted_def hasattr_def instance_attributes_def)

lemma numeric_error: "numeric n rows = Inl e \<Longrightarrow> e = ValidationError"
  by (auto simp: numeric_def split: if_splits)

lemma check_array_error: "check_array X = Inl e \<Longrightarrow> e = ValidationError"
  by (cases X) (auto dest: numeric_error split: list.splits)

lemma pd_DataFrame_error: "pd_DataFrame A names = Inl e \<Longrightarrow> e = ShapeError"
  by (auto simp: pd_DataFrame_def split: if_splits)

lemma predict_never_not_fitted: "predict self X \<noteq> Inl NotFittedError"
  by (auto simp: predict_def check_is_fitted_model
      dest: check_array_error pd_DataFrame_error split: sum.splits option.splits)

lemma present_results_never_not_fitted: "present_results env self \<noteq> Inl NotFittedError"
  by (simp add: present_results_def check_is_fitted_results)

lemma substitute_error: "substitute f vals d s names = Inl e \<Longrightarrow> e = KeyError"
  by (induction names arbitrary: s) (auto split: option.splits)

lemma repr_never_not_fitted: "repr env self d \<noteq> Inl NotFittedError"
  by (auto simp: repr_def dest: substitute_error)

lemma get_models_from_error:
  "get_models_from env self idx trs = Inl e \<Longrightarrow> e = IndexError \<or> e = AttributeError"
  by (induction trs arbitrary: idx) (auto split: if_splits option.splits sum.splits)

lemma get_models_never_not_fitted: "get_models env self \<noteq> Inl NotFittedError"
  by (auto simp: get_models_def dest: get_models_from_error)

section \<open>The claims about the unfit state, the registry and validation\<close>

text \<open>
  C1. The claim: on an estimator on which no fit has succeeded, \<^verbatim>\<open>predict\<close>,
  \<^verbatim>\<open>present_results\<close>, \<^verbatim>\<open>repr\<close>, \<^verbatim>\<open>get_models\<close> and \<^verbatim>\<open>latex\<close>
  each fail with a not-fitted error. The code does otherwise, in every state
  of the estimator: none of the five ever raises \<^verbatim>\<open>NotFittedError\<close>.
  \<^verbatim>\<open>check_is_fitted\<close> finds \<^verbatim>\<open>model_\<close>, \<^verbatim>\<open>loss_\<close> and \<^verbatim>\<open>cache_\<close>,
  which \<^verbatim>\<open>__init__\<close> has assigned, and the other three operations do not
  check. On a newly constructed estimator, whatever its arguments,
  \<^verbatim>\<open>predict([[15.]])\<close> fails on the labelling of one column with no name,
  \<^verbatim>\<open>get_models\<close> fails on \<^verbatim>\<open>self.X_\<close> being \<^verbatim>\<open>None\<close>, and
  \<^verbatim>\<open>latex\<close> returns the rendering of the placeholder \<^verbatim>\<open>Tree()\<close>.
\<close>

theorem unfit_operations_never_raise_not_fitted:
  "predict self X \<noteq> Inl NotFittedError
   \<and> present_results env self \<noteq> Inl NotFittedError
   \<and> repr env self d \<noteq> Inl NotFittedError
   \<and> get_models env self \<noteq> Inl NotFittedError
   \<and> latex self = Inr (tree_latex (model_' self))
   \<and> predict (init env p ts' n) (PyList [[Num 15]]) = Inl ShapeError
   \<and> get_models env (init env p (t # ts') n) = Inl AttributeError
   \<and> latex (init env p ts' n) = Inr (tree_latex (new_Tree env))"
proof -
  have "predict (init env p ts' n) (PyList [[Num 15]]) = Inl ShapeError"
    by (simp add: predict_def check_is_fitted_model numeric_def pd_DataFrame_def init_def)
  moreover have "get_models env (init env p (t # ts') n) = Inl AttributeError"
    by (simp add: get_models_def init_def)
  moreover have "latex (init env p ts' n) = Inr (tree_latex (new_Tree env))"
    by (simp add: latex_def init_def)
  moreover have "latex self = Inr (tree_latex (model_' self))"
    by (simp add: latex_def)
  ultimately show ?thesis
    using predict_never_not_fitted present_results_never_not_fitted
      repr_never_not_fitted get_models_never_not_fitted by blast
qed

text \<open>
  C3, the claim as stated fails. The built-in \<^verbatim>\<open>max\<close> is a named callable.
  Line 209 enters it in the custom-operator table, line 210 raises in
  \<^verbatim>\<open>signature(op)\<close>, and neither the operator table nor the prior table gets
  its entry.
\<close>

theorem add_primitive_without_signature:
  "fst (add_primitive ex_unfit ex_max (module_store const_engine)) = Some SignatureError
   \<and> custom_ops (fst (snd (add_primitive ex_unfit ex_max (module_store const_engine)))) ''max''
       = Some ex_max
   \<and> ops (fst (snd (add_primitive ex_unfit ex_max (module_store const_engine)))) ''max'' = None
   \<and> snd (snd (add_primitive ex_unfit ex_max (module_store const_engine)))
        (prior_par ex_unfit) ''Nopi_max'' = None"
  by (simp add: add_primitive_def ex_max_def ex_unfit_def init_def const_engine_def
      module_store_def)

text \<open>
  C3, amended. For a named callable whose parameter count \<open>n\<close> can be read,
  \<^verbatim>\<open>add_primitive\<close> raises nothing and puts the operator's name with \<open>n\<close> into
  the operator table, the name with the callable into the custom-operator
  table, and \<^verbatim>\<open>"Nopi_" + name\<close> with weight 1 into the prior table the
  estimator refers to; every other entry, every other dictionary and the
  reference itself stay as they were. Registering two such operators of one
  name, one after the other, leaves what registering the second alone leaves:
  one entry per table, the last registration's.
\<close>

theorem add_primitive_registers:
  "fn_arity op = Some n \<Longrightarrow>
     fst (add_primitive self op st) = None
     \<and> ops (fst (snd (add_primitive self op st))) = (ops self)(fn_name op \<mapsto> n)
     \<and> custom_ops (fst (snd (add_primitive self op st))) = (custom_ops self)(fn_name op \<mapsto> op)
     \<and> snd (snd (add_primitive self op st))
         = st(prior_par self := (st (prior_par self))(''Nopi_'' @ fn_name op \<mapsto> 1))
     \<and> prior_par (fst (snd (add_primitive self op st))) = prior_par self
     \<and> add_primitive (fst (snd (add_primitive self (Callable name (Some a) i) st)))
           (Callable name (Some b) j) (snd (snd (add_primitive self (Callable name (Some a) i) st)))
         = add_primitive self (Callable name (Some b) j) st"
  by (simp add: add_primitive_def)

text \<open>A function \<^verbatim>\<open>f\<close> of two parameters, registered on the unfit example.\<close>

theorem add_primitive_registers_witness:
  "fn_arity (Callable ''f'' (Some 2) 0) = Some 2
   \<and> fst (add_primitive ex_unfit (Callable ''f'' (Some 2) 0) (module_store const_engine)) = None
   \<and> ops (fst (snd (add_primitive ex_unfit (Callable ''f'' (Some 2) 0)
        (module_store const_engine)))) ''f'' = Some 2
   \<and> ops (fst (snd (add_primitive ex_unfit (Callable ''f'' (Some 2) 0)
        (module_store const_engine)))) ''sin'' = Some 1
   \<and> custom_ops (fst (snd (add_primitive ex_unfit (Callable ''f'' (Some 2) 0)
        (module_store const_engine)))) ''f'' = Some (Callable ''f'' (Some 2) 0)
   \<and> snd (snd (add_primitive ex_unfit (Callable ''f'' (Some 2) 0)
        (module_store const_engine))) PRIORS ''Nopi_f'' = Some 1
   \<and> snd (snd (add_primitive ex_unfit (Callable ''f'' (Some 2) 0)
        (module_store const_engine))) PRIORS ''Nopi_sin'' = Some 6"
proof -
  have a: "fn_arity (Callable ''f'' (Some 2) 0) = Some 2" by simp
  have p: "prior_par ex_unfit = PRIORS" "ops ex_unfit ''sin'' = Some 1"
    "module_store const_engine PRIORS ''Nopi_sin'' = Some 6"
    by (simp_all add: ex_unfit_def init_def const_engine_def module_store_def)
  from add_primitive_registers [OF a, of ex_unfit "module_store const_engine"] a p
  show ?thesis by simp
qed

text \<open>
  C10. In \<^verbatim>\<open>predict\<close> the array check comes first: whenever
  \<^verbatim>\<open>check_array\<close> rejects \<^verbatim>\<open>X\<close>, on any estimator, fitted or not,
  \<^verbatim>\<open>predict\<close> raises that validation error, and so no not-fitted error.
\<close>

theorem predict_validates_first:
  "check_array X = Inl e \<Longrightarrow> predict self X = Inl e \<and> e = ValidationError"
  by (simp add: predict_def check_array_error)

text \<open>A one-dimensional input and a non-numeric entry, on an estimator never fitted.\<close>

theorem predict_validates_first_witness:
  "check_array (Array1 [Num 1]) = Inl ValidationError
   \<and> predict (init const_engine PRIORS [1] 1500) (Array1 [Num 1]) = Inl ValidationError
   \<and> check_array (PyList [[Text ''a'']]) = Inl ValidationError
   \<and> predict (init const_engine PRIORS [1] 1500) (PyList [[Text ''a'']]) = Inl ValidationError"
proof -
  have a: "check_array (Array1 [Num 1]) = Inl ValidationError" by simp
  have b: "check_array (PyList [[Text ''a'']]) = Inl ValidationError" by (simp add: numeric_def)
  show ?thesis
    using a b predict_validates_first [OF a, of "init const_engine PRIORS [1] 1500"]
      predict_validates_first [OF b, of "init const_engine PRIORS [1] 1500"] by simp
qed

section \<open>What a fit changes\<close>

lemma add_primitive_frame:
  "add_primitive self op st = (res, self', st') \<Longrightarrow>
     variables self' = variables self \<and> ts self' = ts self \<and> epochs self' = epochs self
     \<and> prior_par self' = prior_par self \<and> pms self' = pms self
     \<and> X_' self' = X_' self \<and> y_' self' = y_' self \<and> model_' self' = model_' self
     \<and> temp_' self' = temp_' self \<and> models_' self' = models_' self
     \<and> loss_' self' = loss_' self \<and> cache_' self' = cache_' self"
  by (auto simp: add_primitive_def split: option.splits)

lemma add_primitives_frame:
  "add_primitives self fs st = (res, self', st') \<Longrightarrow>
     variables self' = variables self \<and> ts self' = ts self \<and> epochs self' = epochs self
     \<and> prior_par self' = prior_par self \<and> pms self' = pms self
     \<and> X_' self' = X_' self \<and> y_' self' = y_' self \<and> model_' self' = model_' self
     \<and> temp_' self' = temp_' self \<and> models_' self' = models_' self
     \<and> loss_' self' = loss_' self \<and> cache_' self' = cache_' self"
proof (induction fs arbitrary: self st)
  case Nil
  then show ?case by simp
next
  case (Cons f fs)
  obtain e1 s1 t1 where a: "add_primitive self f st = (e1, s1, t1)"
    by (cases "add_primitive self f st")
  show ?case
  proof (cases e1)
    case None
    with a Cons.prems have "add_primitives s1 fs t1 = (res, self', st')" by simp
    from Cons.IH [OF this] add_primitive_frame [OF a] show ?thesis by simp
  next
    case (Some e)
    with a Cons.prems have "self' = s1" by simp
    with add_primitive_frame [OF a] show ?thesis by simp
  qed
qed

lemma register_root_frame:
  "register_root self r st = (res, self', st') \<Longrightarrow>
     variables self' = variables self \<and> ts self' = ts self \<and> epochs self' = epochs self
     \<and> prior_par self' = prior_par self \<and> pms self' = pms self
     \<and> X_' self' = X_' self \<and> y_' self' = y_' self \<and> model_' self' = model_' self
     \<and> temp_' self' = temp_' self \<and> models_' self' = models_' self
     \<and> loss_' self' = loss_' self \<and> cache_' self' = cache_' self"
  unfolding register_root_def
  by (auto split: option.splits pyobj.splits if_splits dest!: add_primitive_frame)

text \<open>The two steps of \<open>fit_register\<close>: the custom operators, then the root.\<close>

lemma fit_register_steps:
  assumes "fit_register self r cops st = (res, self', st')"
  obtains e2 s2 t2 where
    "(case cops of None \<Rightarrow> (None, self, st) | Some fs \<Rightarrow> add_primitives self fs st) = (e2, s2, t2)"
    "(e2 \<noteq> None \<and> (res, self', st') = (e2, s2, t2))
       \<or> (e2 = None \<and> register_root s2 r t2 = (res, self', st'))"
proof -
  obtain e2 s2 t2 where
    c: "(case cops of None \<Rightarrow> (None, self, st) | Some fs \<Rightarrow> add_primitives self fs st) = (e2, s2, t2)"
    by (cases "case cops of None \<Rightarrow> (None, self, st) | Some fs \<Rightarrow> add_primitives self fs st")
  with assms have "(e2 \<noteq> None \<and> (res, self', st') = (e2, s2, t2))
       \<or> (e2 = None \<and> register_root s2 r t2 = (res, self', st'))"
    by (cases e2) (auto simp: fit_register_def)
  with c that show ?thesis by blast
qed

lemma fit_register_frame:
  assumes "fit_register self r cops st = (res, self', st')"
  shows "variables self' = variables self \<and> ts self' = ts self \<and> epochs self' = epochs self
     \<and> prior_par self' = prior_par self \<and> pms self' = pms self
     \<and> X_' self' = X_' self \<and> y_' self' = y_' self \<and> model_' self' = model_' self
     \<and> temp_' self' = temp_' self \<and> models_' self' = models_' self
     \<and> loss_' self' = loss_' self \<and> cache_' self' = cache_' self"
proof -
  from assms obtain e2 s2 t2 where
    c: "(case cops of None \<Rightarrow> (None, self, st) | Some fs \<Rightarrow> add_primitives self fs st) = (e2, s2, t2)"
    and d: "(e2 \<noteq> None \<and> (res, self', st') = (e2, s2, t2))
       \<or> (e2 = None \<and> register_root s2 r t2 = (res, self', st'))"
    by (rule fit_register_steps)
  from c have f2: "variables s2 = variables self \<and> ts s2 = ts self \<and> epochs s2 = epochs self
     \<and> prior_par s2 = prior_par self \<and> pms s2 = pms self
     \<and> X_' s2 = X_' self \<and> y_' s2 = y_' self \<and> model_' s2 = model_' self
     \<and> temp_' s2 = temp_' self \<and> models_' s2 = models_' self
     \<and> loss_' s2 = loss_' self \<and> cache_' s2 = cache_' self"
    by (cases cops) (auto dest!: add_primitives_frame)
  from d show ?thesis
  proof
    assume "e2 \<noteq> None \<and> (res, self', st') = (e2, s2, t2)"
    with f2 show ?thesis by simp
  next
    assume "e2 = None \<and> register_root s2 r t2 = (res, self', st')"
    then have "register_root s2 r t2 = (res, self', st')" ..
    from register_root_frame [OF this] f2 show ?thesis by simp
  qed
qed

lemma fit_search_success:
  "fit_search env self st Xf yv k r seed = (None, self') \<Longrightarrow>
     variables self' = variables self \<and> ts self' = ts self \<and> X_' self' = Some Xf
     \<and> y_' self' = Some yv \<and> models_' self' = trees env (pms self')"
  unfolding fit_search_def
  by (auto split: option.splits prod.splits)

lemma fit_search_failure:
  "fit_search env self st Xf yv k r seed = (Some e, self') \<Longrightarrow>
     e = EngineFailure \<and> variables self' = variables self \<and> ts self' = ts self
     \<and> epochs self' = epochs self \<and> prior_par self' = prior_par self
     \<and> X_' self' = X_' self \<and> y_' self' = y_' self \<and> model_' self' = model_' self
     \<and> temp_' self' = temp_' self \<and> models_' self' = models_' self
     \<and> loss_' self' = loss_' self \<and> cache_' self' = cache_' self"
  unfolding fit_search_def
  by (auto split: option.splits prod.splits)

lemma fit_success:
  assumes "fit env self X y k r cops seed st = (None, self', st')"
  obtains names A Xf self3 where
    "column_names X = Inr names" "check_X_y X y = Inr (A, y)" "pd_DataFrame A names = Inr Xf"
    "fit_register (self\<lparr>variables := names\<rparr>) r cops st = (None, self3, st')"
    "fit_search env self3 st' Xf y k r seed = (None, self')"
  using assms unfolding fit_def check_X_y_def
  by (auto split: sum.splits prod.splits option.splits if_splits)

lemma column_names_spec:
  "column_names X = Inr names \<Longrightarrow> names = spec_variable_names X \<and> length names = n_features X"
  by (cases X) (auto simp: spec_variable_names_def numbered_def)

lemma fit_variables:
  assumes "fit env self X y k r cops seed st = (None, self', st')"
  shows "variables self' = spec_variable_names X"
    and "length (variables self') = n_features X"
    and "\<exists>A. X_' self' = Some (Frame (variables self') A)"
    and "ts self' = ts self"
proof -
  from assms obtain names A Xf self3 where
    n: "column_names X = Inr names" and d: "pd_DataFrame A names = Inr Xf"
    and g: "fit_register (self\<lparr>variables := names\<rparr>) r cops st = (None, self3, st')"
    and s: "fit_search env self3 st' Xf y k r seed = (None, self')"
    by (rule fit_success)
  from fit_register_frame [OF g] fit_search_success [OF s]
  have v: "variables self' = names" and x: "X_' self' = Some Xf" and t: "ts self' = ts self"
    by simp_all
  from d have "Xf = Frame names A" by (auto simp: pd_DataFrame_def split: if_splits)
  with v x n column_names_spec [OF n] t
  show "variables self' = spec_variable_names X" "length (variables self') = n_features X"
    "\<exists>A. X_' self' = Some (Frame (variables self') A)" "ts self' = ts self"
    by auto
qed



lemma get_models_from_ok:
  "X_' self = Some Xf \<Longrightarrow> idx + length trs \<le> length (ts self) \<Longrightarrow>
     get_models_from env self idx trs =
       Inr (map (\<lambda>(tree, t). (BMSRegressor env)\<lparr>model_' := tree, temp_' := t, variables := columns Xf\<rparr>)
              (zip trs (drop idx (ts self))))"
proof (induction trs arbitrary: idx)
  case Nil
  then show ?case by simp
next
  case (Cons tr trs)
  then have lt: "idx < length (ts self)" and "Suc idx + length trs \<le> length (ts self)" by simp_all
  with Cons have ih: "get_models_from env self (Suc idx) trs =
       Inr (map (\<lambda>(tree, t). (BMSRegressor env)\<lparr>model_' := tree, temp_' := t, variables := columns Xf\<rparr>)
              (zip trs (drop (Suc idx) (ts self))))" by blast
  from lt have "drop idx (ts self) = ts self ! idx # drop (Suc idx) (ts self)"
    by (simp add: Cons_nth_drop_Suc)
  with ih Cons.prems lt show ?case by simp
qed


lemma numeric_shape:
  "numeric n rows = Inr A \<Longrightarrow>
     length A = length rows \<and> list_all (\<lambda>r. length r = n) A \<and> A \<noteq> [] \<and> 0 < n"
  by (auto simp: numeric_def list_all_iff split: if_splits)

lemma check_array_shape:
  "check_array X = Inr A \<Longrightarrow>
     length A = n_rows X \<and> list_all (\<lambda>r. length r = n_features X) A"
  by (cases X) (auto dest: numeric_shape split: list.splits)

subsection \<open>The example estimators\<close>

lemmas eval_defs = fit_def init_def const_engine_def check_X_y_def numeric_def pd_DataFrame_def
  fit_register_def register_root_def fit_search_def fit_session_args_def numbered_def
  string_of_nat.simps digit_char_def module_store_def upt_rec ex_unfit_def

lemma ex_fit:
  "fit const_engine ex_unfit (Array2 1 [[Num 0], [Num 1]]) [Num 15, Num 15] 1
       None None None (module_store const_engine)
     = (None, ex_fitted, module_store const_engine)"
  unfolding ex_fitted_def by (simp add: eval_defs)

lemma ex_fitted_fields:
  "variables ex_fitted = [''X0'']" "X_' ex_fitted = Some (Frame [''X0''] [[0], [1]])"
  "models_' ex_fitted = [const_tree 15, const_tree 15]" "ts ex_fitted = [1, 2]"
  "model_' ex_fitted = const_tree 15"
  unfolding ex_fitted_def by (simp_all add: eval_defs)

section \<open>The claims about fitted estimators\<close>



text \<open>
  C5. On an estimator a fit has left, for an input that passes the array check
  and has as many columns as the fit saw, \<^verbatim>\<open>predict\<close> applies the stored
  best model to the input labelled with the stored names and returns the
  model's column as rows of one entry each, as many rows as the input has. That
  the model returns one value per row is the engine's part.
\<close>

theorem predict_single_column:
  assumes "fit env self X y k r cops seed st = (None, self', st')"
    and "check_array X2 = Inr A"
    and "n_features X2 = n_features X"
    and "tree_predict (model_' self') (Frame (variables self') A) = Some ys"
    and "length ys = length A"
  shows "predict self' X2 = Inr (map (\<lambda>v. [v]) ys)
       \<and> length (map (\<lambda>v. [v]) ys) = n_rows X2
       \<and> list_all (\<lambda>row. length row = 1) (map (\<lambda>v. [v]) ys)"
proof -
  from fit_variables(2) [OF assms(1)] assms(3)
  have "length (variables self') = n_features X2" by simp
  with check_array_shape [OF assms(2)]
  have "pd_DataFrame A (variables self') = Inr (Frame (variables self') A)"
    by (simp add: pd_DataFrame_def)
  with assms(2,4) have "predict self' X2 = Inr (map (\<lambda>v. [v]) ys)"
    by (simp add: predict_def check_is_fitted_model)
  moreover from check_array_shape [OF assms(2)] assms(5)
  have "length (map (\<lambda>v. [v]) ys) = n_rows X2" by simp
  moreover have "list_all (\<lambda>row. length row = 1) (map (\<lambda>v. [v]) ys)"
    by (simp add: list_all_iff)
  ultimately show ?thesis by blast
qed

text \<open>Two rows through the fitted example: two rows of one prediction each.\<close>

theorem predict_single_column_witness:
  "check_array (PyList [[Num 15], [Num 3]]) = Inr [[15], [3]]
   \<and> n_features (PyList [[Num 15], [Num 3]]) = n_features (Array2 1 [[Num 0], [Num 1]])
   \<and> tree_predict (model_' ex_fitted) (Frame (variables ex_fitted) [[15], [3]]) = Some [15, 15]
   \<and> predict ex_fitted (PyList [[Num 15], [Num 3]]) = Inr [[15], [15]]
   \<and> n_rows (PyList [[Num 15], [Num 3]]) = 2"
proof -
  have a: "check_array (PyList [[Num 15], [Num 3]]) = Inr [[15], [3]]"
    by (simp add: numeric_def)
  have b: "n_features (PyList [[Num 15], [Num 3]]) = n_features (Array2 1 [[Num 0], [Num 1]])"
    by simp
  have c: "tree_predict (model_' ex_fitted) (Frame (variables ex_fitted) [[15], [3]]) = Some [15, 15]"
    by (simp add: ex_fitted_fields const_tree_def)
  have d: "length [15, 15 :: real] = length [[15], [3 :: real]]" by simp
  from predict_single_column [OF ex_fit a b c d] a b c show ?thesis by simp
qed

text \<open>
  C6. On an estimator a fit has left, with a population of one model per
  configured temperature, \<^verbatim>\<open>get_models\<close> returns one facade per model: the
  \<open>i\<close>-th carries the \<open>i\<close>-th model of the population, the \<open>i\<close>-th temperature
  of the ladder and the names the fit resolved.
\<close>

theorem get_models_one_per_temperature:
  assumes "fit env self X y k r cops seed st = (None, self', st')"
    and "length (trees env (pms self')) = length (ts self)"
  shows "\<exists>ms. get_models env self' = Inr ms
       \<and> length ms = length (ts self)
       \<and> length ms = length (models_' self')
       \<and> (\<forall>i<length ms. model_' (ms ! i) = models_' self' ! i
              \<and> temp_' (ms ! i) = ts self ! i
              \<and> variables (ms ! i) = spec_variable_names X)"
proof -
  from assms(1) obtain names A Xf self3 where
    g: "fit_register (self\<lparr>variables := names\<rparr>) r cops st = (None, self3, st')"
    and s: "fit_search env self3 st' Xf y k r seed = (None, self')"
    by (rule fit_success)
  from fit_search_success [OF s] have m: "models_' self' = trees env (pms self')" by simp
  note v = fit_variables [OF assms(1)]
  from v(3) obtain A where x: "X_' self' = Some (Frame (variables self') A)" ..
  let ?f = "\<lambda>(tree, t). (BMSRegressor env)\<lparr>model_' := tree, temp_' := t,
      variables := columns (Frame (variables self') A)\<rparr>"
  let ?ms = "map ?f (zip (models_' self') (ts self'))"
  from m assms(2) v(4) have len: "length (models_' self') = length (ts self')" by simp
  with get_models_from_ok [OF x, of 0 "models_' self'" env]
  have "get_models env self' = Inr ?ms" by (simp add: get_models_def)
  moreover from len v(4) have "length ?ms = length (ts self)" "length ?ms = length (models_' self')"
    by simp_all
  moreover from len v(1,4) have "\<forall>i<length ?ms. model_' (?ms ! i) = models_' self' ! i
              \<and> temp_' (?ms ! i) = ts self ! i
              \<and> variables (?ms ! i) = spec_variable_names X"
    by simp
  ultimately show ?thesis by blast
qed

text \<open>The fitted example has two temperatures and two facades.\<close>

theorem get_models_one_per_temperature_witness:
  "length (trees const_engine (pms ex_fitted)) = length (ts ex_unfit)
   \<and> (\<exists>ms. get_models const_engine ex_fitted = Inr ms \<and> length ms = 2
        \<and> model_' (ms ! 1) = const_tree 15 \<and> temp_' (ms ! 1) = 2 \<and> variables (ms ! 1) = [''X0''])"
proof -
  have a: "length (trees const_engine (pms ex_fitted)) = length (ts ex_unfit)"
    unfolding ex_fitted_def by (simp add: eval_defs)
  have s: "spec_variable_names (Array2 1 [[Num 0], [Num 1]]) = [''X0'']"
    by (simp add: spec_variable_names_def eval_defs)
  have t: "ts ex_unfit = [1, 2]" by (simp add: ex_unfit_def init_def)
  from get_models_one_per_temperature [OF ex_fit a] obtain ms where
    "get_models const_engine ex_fitted = Inr ms" "length ms = length (ts ex_unfit)"
    "\<forall>i<length ms. model_' (ms ! i) = models_' ex_fitted ! i
              \<and> temp_' (ms ! i) = ts ex_unfit ! i
              \<and> variables (ms ! i) = spec_variable_names (Array2 1 [[Num 0], [Num 1]])"
    by blast
  with s t a show ?thesis by (auto simp: ex_fitted_fields)
qed

section \<open>A fit that fails\<close>

text \<open>
  C4, the claim as stated fails. The fitted example is fitted again with two
  columns and a target of the wrong length: \<^verbatim>\<open>check_X_y\<close> raises, and the
  names, which line 110 stored before the check, are now \<^verbatim>\<open>X0, X1\<close>. A
  prediction on one column, which worked before, fails on the labelling.
\<close>

theorem failed_fit_overwrites_variables:
  "fit const_engine ex_fitted (Array2 2 [[Num 0, Num 1]]) [Num 15, Num 15] 1 None None None
       (module_store const_engine)
     = (Some ValidationError, ex_fitted\<lparr>variables := [''X0'', ''X1'']\<rparr>,
        module_store const_engine)
   \<and> variables ex_fitted = [''X0'']
   \<and> variables (ex_fitted\<lparr>variables := [''X0'', ''X1'']\<rparr>) \<noteq> variables ex_fitted
   \<and> predict ex_fitted (PyList [[Num 15]]) = Inr [[15]]
   \<and> predict (ex_fitted\<lparr>variables := [''X0'', ''X1'']\<rparr>) (PyList [[Num 15]]) = Inl ShapeError"
  by (simp add: fit_def check_X_y_def numeric_def numbered_def string_of_nat.simps
      digit_char_def upt_rec ex_fitted_fields predict_def check_is_fitted_model
      pd_DataFrame_def const_tree_def)

text \<open>
  C4, amended. A fit that raises leaves the best model, its loss, the loss
  trajectory, the population and the stored frame and target as they were. The
  variable names are those resolved from the new input, whenever the failure
  comes after their resolution, and the old ones otherwise.
\<close>

theorem failed_fit_keeps_results:
  assumes "fit env self X y k r cops seed st = (Some e, self', st')"
  shows "model_' self' = model_' self \<and> loss_' self' = loss_' self
       \<and> cache_' self' = cache_' self \<and> models_' self' = models_' self
       \<and> X_' self' = X_' self \<and> y_' self' = y_' self
       \<and> variables self' = (case column_names X of Inl e' \<Rightarrow> variables self | Inr names \<Rightarrow> names)"
proof (cases "column_names X")
  case (Inl e')
  with assms show ?thesis by (simp add: fit_def)
next
  case (Inr names)
  let ?s1 = "self\<lparr>variables := names\<rparr>"
  show ?thesis
  proof (cases "check_X_y X y")
    case (Inl e')
    with Inr assms show ?thesis by (auto simp: fit_def)
  next
    case r1: (Inr Ay)
    obtain A yv where ay: "Ay = (A, yv)" by (cases Ay)
    show ?thesis
    proof (cases "pd_DataFrame A names")
      case (Inl e')
      with Inr r1 ay assms show ?thesis by (auto simp: fit_def)
    next
      case r2: (Inr Xf)
      obtain res self3 st3 where g: "fit_register ?s1 r cops st = (res, self3, st3)"
        by (cases "fit_register ?s1 r cops st")
      note f3 = fit_register_frame [OF g]
      show ?thesis
      proof (cases res)
        case (Some e')
        with Inr r1 ay r2 g assms have "self' = self3" by (simp add: fit_def)
        with f3 Inr show ?thesis by simp
      next
        case None
        obtain r4 self4 where s: "fit_search env self3 st3 Xf yv k r seed = (r4, self4)"
          by (cases "fit_search env self3 st3 Xf yv k r seed")
        with None Inr r1 ay r2 g assms have "self' = self4" "r4 = Some e"
          by (simp_all add: fit_def)
        with s fit_search_failure [of env self3 st3 Xf yv k r seed e self'] f3 Inr
        show ?thesis by simp
      qed
    qed
  qed
qed

text \<open>The failing fit above, with the results of the first fit still in place.\<close>

theorem failed_fit_keeps_results_witness:
  "fit const_engine ex_fitted (Array2 2 [[Num 0, Num 1]]) [Num 15, Num 15] 1 None None None
       (module_store const_engine)
     = (Some ValidationError, ex_fitted\<lparr>variables := [''X0'', ''X1'']\<rparr>,
        module_store const_engine)
   \<and> model_' (ex_fitted\<lparr>variables := [''X0'', ''X1'']\<rparr>) = const_tree 15
   \<and> models_' (ex_fitted\<lparr>variables := [''X0'', ''X1'']\<rparr>) = [const_tree 15, const_tree 15]
   \<and> X_' (ex_fitted\<lparr>variables := [''X0'', ''X1'']\<rparr>) = Some (Frame [''X0''] [[0], [1]])
   \<and> column_names (Array2 2 [[Num 0, Num 1]]) = Inr [''X0'', ''X1'']"
proof -
  have f: "fit const_engine ex_fitted (Array2 2 [[Num 0, Num 1]]) [Num 15, Num 15] 1 None None None
       (module_store const_engine)
     = (Some ValidationError, ex_fitted\<lparr>variables := [''X0'', ''X1'']\<rparr>,
        module_store const_engine)"
    by (simp add: fit_def check_X_y_def numeric_def numbered_def string_of_nat.simps
      digit_char_def upt_rec)
  have c: "column_names (Array2 2 [[Num 0, Num 1]]) = Inr [''X0'', ''X1'']"
    by (simp add: numbered_def string_of_nat.simps digit_char_def upt_rec)
  from failed_fit_keeps_results [OF f] f c show ?thesis
    by (simp add: ex_fitted_fields)
qed

section \<open>Registrations\<close>

lemma add_primitive_store:
  "add_primitive self op st = (res, self', st') \<Longrightarrow> a \<noteq> prior_par self \<Longrightarrow> st' a = st a"
  by (auto simp: add_primitive_def split: option.splits)

lemma add_primitives_store:
  "add_primitives self fs st = (res, self', st') \<Longrightarrow> a \<noteq> prior_par self \<Longrightarrow> st' a = st a"
proof (induction fs arbitrary: self st)
  case Nil
  then show ?case by simp
next
  case (Cons f fs)
  obtain e1 s1 t1 where p: "add_primitive self f st = (e1, s1, t1)"
    by (cases "add_primitive self f st")
  note t1 = add_primitive_store [OF p Cons.prems(2)]
  show ?case
  proof (cases e1)
    case None
    with p Cons.prems have r: "add_primitives s1 fs t1 = (res, self', st')" by simp
    from add_primitive_frame [OF p] Cons.prems have "a \<noteq> prior_par s1" by simp
    from Cons.IH [OF r this] t1 show ?thesis by simp
  next
    case (Some e)
    with p Cons.prems have "st' = t1" by simp
    with t1 show ?thesis by simp
  qed
qed

lemma register_root_store:
  "register_root self r st = (res, self', st') \<Longrightarrow> a \<noteq> prior_par self \<Longrightarrow> st' a = st a"
  unfolding register_root_def
  by (auto split: option.splits pyobj.splits if_splits dest: add_primitive_store)

lemma fit_register_store:
  assumes "fit_register self r cops st = (res, self', st')" and "a \<noteq> prior_par self"
  shows "st' a = st a"
proof -
  from assms(1) obtain e2 s2 t2 where
    c: "(case cops of None \<Rightarrow> (None, self, st) | Some fs \<Rightarrow> add_primitives self fs st) = (e2, s2, t2)"
    and d: "(e2 \<noteq> None \<and> (res, self', st') = (e2, s2, t2))
       \<or> (e2 = None \<and> register_root s2 r t2 = (res, self', st'))"
    by (rule fit_register_steps)
  from c assms(2) have t2: "t2 a = st a" and p2: "prior_par s2 = prior_par self"
    by (cases cops; auto dest: add_primitives_store add_primitives_frame)+
  from d show ?thesis
  proof
    assume "e2 \<noteq> None \<and> (res, self', st') = (e2, s2, t2)"
    with t2 show ?thesis by simp
  next
    assume "e2 = None \<and> register_root s2 r t2 = (res, self', st')"
    then have "register_root s2 r t2 = (res, self', st')" ..
    from register_root_store [OF this] p2 assms(2) t2 show ?thesis by simp
  qed
qed

lemma fit_store:
  assumes "fit env self X y k r cops seed st = (res, self', st')" and "a \<noteq> prior_par self"
  shows "st' a = st a"
proof -
  have "st' = st \<or> (\<exists>names res3 self3.
      fit_register (self\<lparr>variables := names\<rparr>) r cops st = (res3, self3, st'))"
    using assms(1) unfolding fit_def
    by (auto split: sum.splits prod.splits option.splits)
  with assms(2) show ?thesis by (auto dest: fit_register_store)
qed

lemma add_primitive_keep:
  "add_primitive self g st = (res, self', st') \<Longrightarrow>
     (ops self n \<noteq> None \<longrightarrow> ops self' n \<noteq> None)
     \<and> (custom_ops self n \<noteq> None \<longrightarrow> custom_ops self' n \<noteq> None)
     \<and> (st (prior_par self) key = Some 1 \<longrightarrow> st' (prior_par self) key = Some 1)"
  by (auto simp: add_primitive_def split: option.splits)

lemma add_primitives_keep:
  "add_primitives self fs st = (res, self', st') \<Longrightarrow>
     (ops self n \<noteq> None \<longrightarrow> ops self' n \<noteq> None)
     \<and> (custom_ops self n \<noteq> None \<longrightarrow> custom_ops self' n \<noteq> None)
     \<and> (st (prior_par self) key = Some 1 \<longrightarrow> st' (prior_par self) key = Some 1)"
proof (induction fs arbitrary: self st)
  case Nil
  then show ?case by simp
next
  case (Cons g fs)
  obtain e1 s1 t1 where p: "add_primitive self g st = (e1, s1, t1)"
    by (cases "add_primitive self g st")
  note k = add_primitive_keep [OF p, of n key]
  from add_primitive_frame [OF p] have q: "prior_par s1 = prior_par self" by simp
  show ?case
  proof (cases e1)
    case None
    with p Cons.prems have r: "add_primitives s1 fs t1 = (res, self', st')" by simp
    from Cons.IH [OF r] k q show ?thesis by simp
  next
    case (Some e)
    with p Cons.prems have "self' = s1" "st' = t1" by simp_all
    with k show ?thesis by simp
  qed
qed

lemma add_primitive_registered:
  "add_primitive self f st = (None, self', st') \<Longrightarrow>
     ops self' (fn_name f) = fn_arity f \<and> fn_arity f \<noteq> None
     \<and> custom_ops self' (fn_name f) = Some f
     \<and> st' (prior_par self) (''Nopi_'' @ fn_name f) = Some 1"
  by (auto simp: add_primitive_def split: option.splits)

lemma add_primitives_registered:
  "add_primitives self fs st = (None, self', st') \<Longrightarrow> f \<in> set fs \<Longrightarrow>
     ops self' (fn_name f) \<noteq> None \<and> custom_ops self' (fn_name f) \<noteq> None
     \<and> st' (prior_par self) (''Nopi_'' @ fn_name f) = Some 1"
proof (induction fs arbitrary: self st)
  case Nil
  then show ?case by simp
next
  case (Cons g fs)
  obtain e1 s1 t1 where p: "add_primitive self g st = (e1, s1, t1)"
    by (cases "add_primitive self g st")
  with Cons.prems(1) have e1: "e1 = None" by (cases e1) auto
  with p Cons.prems have r: "add_primitives s1 fs t1 = (None, self', st')" by simp
  from add_primitive_frame [OF p] have q: "prior_par s1 = prior_par self" by simp
  show ?case
  proof (cases "f = g")
    case True
    with p e1 have "ops s1 (fn_name f) \<noteq> None \<and> custom_ops s1 (fn_name f) \<noteq> None
      \<and> t1 (prior_par s1) (''Nopi_'' @ fn_name f) = Some 1"
      using add_primitive_registered [of self g st s1 t1] q by auto
    with add_primitives_keep [OF r, of "fn_name f" "''Nopi_'' @ fn_name f"] q
    show ?thesis by simp
  next
    case False
    with Cons.prems have "f \<in> set fs" by simp
    from Cons.IH [OF r this] q show ?thesis by simp
  qed
qed

lemma fit_search_session:
  "fit_search env self st Xf yv k r seed = (None, self') \<Longrightarrow>
     \<exists>session. Parallel env (fit_session_args self st Xf yv k r seed) = Some session"
  unfolding fit_search_def by (auto split: option.splits prod.splits)

lemma fit_register_registered:
  assumes "fit_register self r cops st = (None, self3, st3)"
  shows "(\<forall>fs f. cops = Some fs \<longrightarrow> f \<in> set fs \<longrightarrow>
            ops self3 (fn_name f) \<noteq> None \<and> custom_ops self3 (fn_name f) \<noteq> None
            \<and> st3 (prior_par self3) (''Nopi_'' @ fn_name f) = Some 1)
       \<and> (\<forall>f. r = Some (Fn f) \<longrightarrow>
            ops self3 (fn_name f) = fn_arity f \<and> fn_arity f \<noteq> None
            \<and> custom_ops self3 (fn_name f) = Some f
            \<and> st3 (prior_par self3) (''Nopi_'' @ fn_name f) = Some 1)"
proof -
  from assms obtain e2 s2 t2 where
    c: "(case cops of None \<Rightarrow> (None, self, st) | Some fs \<Rightarrow> add_primitives self fs st) = (e2, s2, t2)"
    and d: "(e2 \<noteq> None \<and> (None, self3, st3) = (e2, s2, t2))
       \<or> (e2 = None \<and> register_root s2 r t2 = (None, self3, st3))"
    by (rule fit_register_steps)
  from d have e2: "e2 = None" and rr: "register_root s2 r t2 = (None, self3, st3)" by auto
  have p2: "prior_par s2 = prior_par self"
    using c by (cases cops) (auto dest: add_primitives_frame)
  from register_root_frame [OF rr] have p3: "prior_par self3 = prior_par s2" by simp
  have a: "\<forall>fs f. cops = Some fs \<longrightarrow> f \<in> set fs \<longrightarrow>
            ops s2 (fn_name f) \<noteq> None \<and> custom_ops s2 (fn_name f) \<noteq> None
            \<and> t2 (prior_par s2) (''Nopi_'' @ fn_name f) = Some 1"
  proof (intro allI impI)
    fix fs f assume h: "cops = Some fs" "f \<in> set fs"
    with c e2 have "add_primitives self fs st = (None, s2, t2)" by simp
    from add_primitives_registered [OF this h(2)] p2
    show "ops s2 (fn_name f) \<noteq> None \<and> custom_ops s2 (fn_name f) \<noteq> None
            \<and> t2 (prior_par s2) (''Nopi_'' @ fn_name f) = Some 1" by simp
  qed
  show ?thesis
  proof (cases "\<exists>g. r = Some (Fn g)")
    case True
    then obtain g where g: "r = Some (Fn g)" ..
    with rr have h: "add_primitive s2 g t2 = (None, self3, st3)"
      by (simp add: register_root_def)
    from add_primitive_registered [OF h] p3
    have "ops self3 (fn_name g) = fn_arity g \<and> fn_arity g \<noteq> None
            \<and> custom_ops self3 (fn_name g) = Some g
            \<and> st3 (prior_par self3) (''Nopi_'' @ fn_name g) = Some 1" by simp
    with g a p3 add_primitive_keep [OF h] show ?thesis by auto
  next
    case False
    with rr have "self3 = s2" "st3 = t2"
      by (auto simp: register_root_def split: option.splits pyobj.splits if_splits)
    with a False show ?thesis by simp
  qed
qed

lemma fit_registers_before_session:
  assumes "fit env self X y k r cops seed st = (None, self', st')"
  shows "\<exists>args session. Parallel env args = Some session
       \<and> (\<forall>fs f. cops = Some fs \<longrightarrow> f \<in> set fs \<longrightarrow>
            s_ops args (fn_name f) \<noteq> None \<and> s_custom_ops args (fn_name f) \<noteq> None
            \<and> s_prior_par args (''Nopi_'' @ fn_name f) = Some 1)
       \<and> (\<forall>f. r = Some (Fn f) \<longrightarrow>
            s_ops args (fn_name f) = fn_arity f \<and> fn_arity f \<noteq> None
            \<and> s_custom_ops args (fn_name f) = Some f
            \<and> s_prior_par args (''Nopi_'' @ fn_name f) = Some 1)"
proof -
  from assms obtain names A Xf self3 where
    g: "fit_register (self\<lparr>variables := names\<rparr>) r cops st = (None, self3, st')"
    and s: "fit_search env self3 st' Xf y k r seed = (None, self')"
    by (rule fit_success)
  from fit_search_session [OF s] obtain session where
    "Parallel env (fit_session_args self3 st' Xf y k r seed) = Some session" ..
  with fit_register_registered [OF g] show ?thesis
    by (intro exI [of _ "fit_session_args self3 st' Xf y k r seed"] exI [of _ session])
      (simp add: fit_session_args_def)
qed

text \<open>
  C7. The claim: the custom operators are registered before the session is
  built, a root that is not a known operator is registered before it too, and
  a root that is already known is not registered again. For a root that is a
  function the first two parts hold (\<open>fit_registers_before_session\<close>). The
  third does not: the test of line 121 compares the root itself with the names
  in the operator table, so a function is registered whether the table knows
  its name or not, and only a root given as a string is ever skipped (a string
  the table does not know fails in \<^verbatim>\<open>add_primitive\<close>). Here the root is a
  function named \<^verbatim>\<open>sin\<close>, which the table has with prior weight 6: the fit
  enters it in the custom operators and resets its weight to 1, in the shared
  table and in the session.
\<close>

theorem fit_reregisters_known_root:
  "register_root self (Some (Fn f)) st = add_primitive self f st
   \<and> register_root self (Some (Str name)) st
       = (if ops self name \<noteq> None then (None, self, st) else (Some AttributeError, self, st))
   \<and> ops ex_unfit ''sin'' = Some 1
   \<and> custom_ops ex_unfit ''sin'' = None
   \<and> module_store const_engine PRIORS ''Nopi_sin'' = Some 6
   \<and> fst (fit const_engine ex_unfit (Array2 1 [[Num 0], [Num 1]]) [Num 15, Num 15] 1
        (Some (Fn ex_sin)) None None (module_store const_engine)) = None
   \<and> custom_ops (fst (snd (fit const_engine ex_unfit (Array2 1 [[Num 0], [Num 1]])
        [Num 15, Num 15] 1 (Some (Fn ex_sin)) None None (module_store const_engine)))) ''sin''
       = Some ex_sin
   \<and> snd (snd (fit const_engine ex_unfit (Array2 1 [[Num 0], [Num 1]])
        [Num 15, Num 15] 1 (Some (Fn ex_sin)) None None (module_store const_engine)))
        PRIORS ''Nopi_sin'' = Some 1
   \<and> s_prior_par (pms (fst (snd (fit const_engine ex_unfit (Array2 1 [[Num 0], [Num 1]])
        [Num 15, Num 15] 1 (Some (Fn ex_sin)) None None (module_store const_engine)))))
        ''Nopi_sin'' = Some 1"
  by (simp add: eval_defs add_primitive_def ex_sin_def PRIORS_def)

text \<open>
  C8, the claim as stated fails. Two estimators constructed with the default
  prior table hold the same dictionary, the module's \<^verbatim>\<open>PRIORS\<close>: a
  registration on one shows in the prior table of the other.
\<close>

theorem default_prior_table_is_shared:
  "prior_par (BMSRegressor const_engine) = prior_par ex_unfit
   \<and> module_store const_engine (prior_par ex_unfit) ''Nopi_f'' = None
   \<and> snd (snd (add_primitive (BMSRegressor const_engine) (Callable ''f'' (Some 1) 0)
            (module_store const_engine))) (prior_par ex_unfit) ''Nopi_f'' = Some 1"
  by (simp add: BMSRegressor_def init_def ex_unfit_def add_primitive_def module_store_def
      const_engine_def)

text \<open>
  C8, amended. A registration on one estimator, by \<^verbatim>\<open>add_primitive\<close> or in
  a \<^verbatim>\<open>fit\<close>, leaves the prior table of every estimator that was given
  another dictionary as it was. The operator and custom-operator tables are
  made in the constructor and belong to the instance.
\<close>

theorem registration_leaves_other_tables:
  assumes "prior_par other \<noteq> prior_par self"
  shows "snd (snd (add_primitive self op st)) (prior_par other) = st (prior_par other)
       \<and> snd (snd (fit env self X y k r cops seed st)) (prior_par other) = st (prior_par other)"
proof -
  have "snd (snd (add_primitive self op st)) (prior_par other) = st (prior_par other)"
    using add_primitive_store [of self op st _ _ _ "prior_par other"] assms
    by (cases "add_primitive self op st") auto
  moreover have "snd (snd (fit env self X y k r cops seed st)) (prior_par other) = st (prior_par other)"
    using fit_store [of env self X y k r cops seed st _ _ _ "prior_par other"] assms
    by (cases "fit env self X y k r cops seed st") auto
  ultimately show ?thesis ..
qed

text \<open>An estimator with a prior table of its own, at address 1, and a default one.\<close>

theorem registration_leaves_other_tables_witness:
  "prior_par (BMSRegressor const_engine) \<noteq> prior_par (init const_engine 1 [1, 2] 1500)
   \<and> snd (snd (add_primitive (init const_engine 1 [1, 2] 1500) (Callable ''f'' (Some 1) 0)
            (module_store const_engine))) (prior_par (BMSRegressor const_engine))
       = module_store const_engine (prior_par (BMSRegressor const_engine))
   \<and> snd (snd (add_primitive (init const_engine 1 [1, 2] 1500) (Callable ''f'' (Some 1) 0)
            (module_store const_engine))) 1 ''Nopi_f'' = Some 1"
proof -
  have a: "prior_par (BMSRegressor const_engine) \<noteq> prior_par (init const_engine 1 [1, 2] 1500)"
    by (simp add: BMSRegressor_def init_def PRIORS_def)
  have b: "snd (snd (add_primitive (init const_engine 1 [1, 2] 1500) (Callable ''f'' (Some 1) 0)
            (module_store const_engine))) 1 ''Nopi_f'' = Some 1"
    by (simp add: add_primitive_def init_def)
  from registration_leaves_other_tables [OF a, of "Callable ''f'' (Some 1) 0"
      "module_store const_engine"] a b
  show ?thesis by simp
qed

section \<open>Replacement in renderings\<close>













lemma wrapped_no_overlap:
  assumes "p = CHR ''_'' # body @ ''_''" and "CHR ''_'' \<notin> set v"
    and "CHR ''.'' \<in> set v" and "CHR ''.'' \<notin> set body"
  shows "no_overlap p v"
proof -
  have "\<not> sublist v p"
  proof
    assume "sublist v p"
    then have "set v \<subseteq> set p" by (rule set_mono_sublist)
    with assms show False by auto
  qed
  with assms show ?thesis by (simp add: no_overlap_def)
qed



end
